theory Spec2Isabelle
  imports Main "HOL-Library.Word" "HOL-Library.Sublist"
begin

unbundle bit_operations_syntax

section \<open>Text written to the console\<close>

text \<open>
  The streams \<open>std::cout\<close> and \<open>std::cerr\<close> are modelled as the strings written to them so
  far. Four characters of the C++ string literals are given by their codes: the line
  feed (\<open>\n\<close>, also what \<open>std::endl\<close> writes), the escape character (\<open>\033\<close>), an
  apostrophe at either end of a literal and the double quote.
\<close>

definition endl :: string where
  "endl = [CHR 0x0A]"

definition esc :: string where
  "esc = [CHR 0x1B]"

definition apos :: string where
  "apos = [CHR 0x27]"

definition dquote :: string where
  "dquote = [CHR 0x22]"

text \<open>\<open>operator<<\<close> on a \<open>size_t\<close>: the decimal digits, without padding.\<close>

fun show_nat :: "nat \<Rightarrow> string" where
  "show_nat n =
     (if n < 10 then [''0123456789'' ! n]
      else show_nat (n div 10) @ [''0123456789'' ! (n mod 10)])"

declare show_nat.simps [simp del]

text \<open>\<open>operator<<\<close> on a \<open>bool\<close> (no \<open>boolalpha\<close> is set anywhere): \<open>1\<close> or \<open>0\<close>.\<close>

definition show_bool :: "bool \<Rightarrow> string" where
  "show_bool b = (if b then ''1'' else ''0'')"

text \<open>\<open>operator<<\<close> on an \<open>int\<close>.\<close>

definition show_int :: "int \<Rightarrow> string" where
  "show_int i = (if i < 0 then ''-'' @ show_nat (nat (- i)) else show_nat (nat i))"


section \<open>Assertion results and the assertion helper\<close>

text \<open>
  \<open>class KAssertionResult\<close>: the message and the success flag. The default constructor
  gives an empty message and success.
\<close>

record KAssertionResult =
  msg :: string
  success :: bool

definition KAssertionResult_default :: KAssertionResult where
  "KAssertionResult_default = \<lparr>msg = [], success = True\<rparr>"

text \<open>\<open>class KAssertionHelper\<close>: the message of the failed result and the source location.\<close>

record KAssertionHelper =
  hmsg :: string
  filepath :: string
  line :: nat

text \<open>
  A thrown object, as far as a handler can tell: the name of its type, the names of the
  public base classes of that type, and what \<open>typeid(e).name()\<close> and \<open>e.what()\<close> give for
  it. An object that is no \<open>std::exception\<close> does not have \<open>std::exception\<close> among its
  bases.
\<close>

record exn =
  type_name :: string
  bases :: "string list"
  typeid_name :: string
  what :: string

text \<open>
  \<open>class KAssertionError final : public std::exception\<close>, with no \<open>what\<close> of its own.
  The last two fields are what GCC and libstdc++ give: the mangled name of the class and
  the text of \<open>std::exception::what\<close>.
\<close>

definition KAssertionError :: exn where
  "KAssertionError =
     \<lparr>type_name = ''ktest::KAssertionError'', bases = [''std::exception''],
      typeid_name = ''N5ktest15KAssertionErrorE'', what = ''std::exception''\<rparr>"

text \<open>Whether a handler \<open>catch (const T &)\<close> takes the thrown object \<open>e\<close>.\<close>

definition catches :: "string \<Rightarrow> exn \<Rightarrow> bool" where
  "catches T e = (T = type_name e \<or> T \<in> set (bases e))"

text \<open>
  How a sequence of statements ends. \<open>Threw_KAssertionError\<close> is the abort signal; an
  object of any other type is \<open>Threw_other\<close>. A body can also end the whole process, by a
  fatal signal or by calling \<open>exit\<close>, and it can run forever (\<open>Never_ends\<close>).
\<close>

datatype completion =
    Finished
  | Threw_KAssertionError
  | Threw_other exn
  | Killed_by nat
  | Called_exit int
  | Never_ends

text \<open>
  \<open>KAssertionHelper::operator=\<close>, applied to a string stream holding \<open>str\<close>: it writes the
  location, the message and, when the stream holds characters, the streamed text; then it
  throws. The first component of the result is \<open>std::cout\<close> afterwards.
\<close>

definition KAssertionHelper_assign ::
  "KAssertionHelper \<Rightarrow> string \<Rightarrow> string \<Rightarrow> string \<times> completion" where
  "KAssertionHelper_assign h str cout =
     (let c1 = cout @ filepath h @ '':'' @ show_nat (line h) @ '': Assertion Failure'' @ endl;
          c2 = c1 @ hmsg h @ endl;
          c3 = (if str \<noteq> [] then c2 @ ''    '' @ str @ endl else c2)
      in (c3, Threw_KAssertionError))"

text \<open>
  The macro \<open>KTEST_KASSERT_BASE(resx)\<close>, used at \<open>file\<close>:\<open>ln\<close> with \<open>str\<close> streamed after it:
  an \<open>if\<close> with an empty then-branch, whose else-branch assigns to a fresh helper.
\<close>

definition KTEST_KASSERT_BASE ::
  "KAssertionResult \<Rightarrow> string \<Rightarrow> nat \<Rightarrow> string \<Rightarrow> string \<Rightarrow> string \<times> completion" where
  "KTEST_KASSERT_BASE resx file ln str cout =
     (if success resx then (cout, Finished)
      else KAssertionHelper_assign \<lparr>hmsg = msg resx, filepath = file, line = ln\<rparr> str cout)"

text \<open>The macro \<open>KTEST_KASSERT_RES_BASE(desc, check)\<close>: the description and the check.\<close>

definition KTEST_KASSERT_RES_BASE :: "string \<Rightarrow> bool \<Rightarrow> KAssertionResult" where
  "KTEST_KASSERT_RES_BASE desc check = \<lparr>msg = desc, success = check\<rparr>"


section \<open>The assertion evaluators\<close>

text \<open>
  The two-operand evaluators are templates over the operand types. Here both operands have
  one type \<open>'a\<close>, whose \<open>operator<<\<close> is the parameter \<open>pr\<close>, whose \<open>==\<close> and \<open>!=\<close> are
  equality and its negation, and whose \<open>>\<close>, \<open>>=\<close>, \<open><\<close>, \<open><=\<close> are those of the order on
  \<open>'a\<close>.
\<close>

definition ktest_assert_true :: "string \<Rightarrow> bool \<Rightarrow> KAssertionResult" where
  "ktest_assert_true checkStr check =
     KTEST_KASSERT_RES_BASE
       (''ASSERT_TRUE - Expected the following to be true:'' @ endl @ ''  '' @ apos
          @ checkStr @ apos @ '': '' @ show_bool check)
       check"

definition ktest_assert_false :: "string \<Rightarrow> bool \<Rightarrow> KAssertionResult" where
  "ktest_assert_false checkStr check =
     KTEST_KASSERT_RES_BASE
       (''ASSERT_FALSE - Expected the following to be false:'' @ endl @ ''  '' @ apos
          @ checkStr @ apos @ '': '' @ show_bool check)
       (\<not> check)"

definition ktest_assert_eq ::
  "('a \<Rightarrow> string) \<Rightarrow> string \<Rightarrow> string \<Rightarrow> 'a \<Rightarrow> 'a \<Rightarrow> KAssertionResult" where
  "ktest_assert_eq pr expectedStr actualStr expected actual =
     KTEST_KASSERT_RES_BASE
       (''ASSERT_EQ - Expected the following to be equal:'' @ endl @ ''  '' @ apos
          @ expectedStr @ apos @ '': '' @ pr expected @ endl @ ''  '' @ apos
          @ actualStr @ apos @ '': '' @ pr actual)
       (expected = actual)"

definition ktest_assert_ne ::
  "('a \<Rightarrow> string) \<Rightarrow> string \<Rightarrow> string \<Rightarrow> 'a \<Rightarrow> 'a \<Rightarrow> KAssertionResult" where
  "ktest_assert_ne pr expectedStr actualStr expected actual =
     KTEST_KASSERT_RES_BASE
       (''ASSERT_NE - Expected the following to be not equal:'' @ endl @ ''  '' @ apos
          @ expectedStr @ apos @ '': '' @ pr expected @ endl @ ''  '' @ apos
          @ actualStr @ apos @ '': '' @ pr actual)
       (expected \<noteq> actual)"

definition ktest_assert_gt ::
  "('a::ord \<Rightarrow> string) \<Rightarrow> string \<Rightarrow> string \<Rightarrow> 'a \<Rightarrow> 'a \<Rightarrow> KAssertionResult" where
  "ktest_assert_gt pr aStr bStr a b =
     KTEST_KASSERT_RES_BASE
       (''ASSERT_GT - Expected the following 'a' to be greater than 'b':'' @ endl
          @ ''  a: '' @ apos @ aStr @ apos @ '': '' @ pr a @ endl
          @ ''  b: '' @ apos @ bStr @ apos @ '': '' @ pr b)
       (a > b)"

definition ktest_assert_ge ::
  "('a::ord \<Rightarrow> string) \<Rightarrow> string \<Rightarrow> string \<Rightarrow> 'a \<Rightarrow> 'a \<Rightarrow> KAssertionResult" where
  "ktest_assert_ge pr aStr bStr a b =
     KTEST_KASSERT_RES_BASE
       (''ASSERT_GT - Expected the following 'a' to be greater than or equal to 'b':'' @ endl
          @ ''  a: '' @ apos @ aStr @ apos @ '': '' @ pr a @ endl
          @ ''  b: '' @ apos @ bStr @ apos @ '': '' @ pr b)
       (a \<ge> b)"

definition ktest_assert_lt ::
  "('a::ord \<Rightarrow> string) \<Rightarrow> string \<Rightarrow> string \<Rightarrow> 'a \<Rightarrow> 'a \<Rightarrow> KAssertionResult" where
  "ktest_assert_lt pr aStr bStr a b =
     KTEST_KASSERT_RES_BASE
       (''ASSERT_GT - Expected the following 'a' to be less than 'b':'' @ endl
          @ ''  a: '' @ apos @ aStr @ apos @ '': '' @ pr a @ endl
          @ ''  b: '' @ apos @ bStr @ apos @ '': '' @ pr b)
       (a < b)"

definition ktest_assert_le ::
  "('a::ord \<Rightarrow> string) \<Rightarrow> string \<Rightarrow> string \<Rightarrow> 'a \<Rightarrow> 'a \<Rightarrow> KAssertionResult" where
  "ktest_assert_le pr aStr bStr a b =
     KTEST_KASSERT_RES_BASE
       (''ASSERT_GT - Expected the following 'a' to be less than or equal to 'b':'' @ endl
          @ ''  a: '' @ apos @ aStr @ apos @ '': '' @ pr a @ endl
          @ ''  b: '' @ apos @ bStr @ apos @ '': '' @ pr b)
       (a \<le> b)"


section \<open>Test bodies\<close>

text \<open>
  The lambda of the macro \<open>KASSERT_THROWS(expected, captures, thrower)\<close>, once the block
  \<open>thrower\<close> has ended with \<open>how\<close>. \<open>Inl\<close> is the result the lambda returns. The first
  handler is \<open>catch (const expected &)\<close>, the second \<open>catch (const std::exception &e)\<close>; an
  object neither of them takes leaves the lambda (\<open>Inr\<close>), as does every other way the
  block can end. \<open>expected\<close> is the name of the type, which is also the text \<open>#expected\<close>;
  \<open>throwerStr\<close> is the text \<open>#thrower\<close>.
\<close>

definition throws_caught ::
  "string \<Rightarrow> string \<Rightarrow> exn \<Rightarrow> completion \<Rightarrow> KAssertionResult + completion" where
  "throws_caught expected throwerStr e how =
     (if catches expected e then Inl KAssertionResult_default
      else if catches ''std::exception'' e then
        Inl \<lparr>msg = ''ASSERT_THROWS - Expected the exeption '' @ apos @ expected @ apos
                @ '' to be thrown by the following code:'' @ endl @ ''  '' @ throwerStr @ endl
                @ ''but a different exception was thrown: '' @ typeid_name e
                @ ''('' @ dquote @ what e @ dquote @ '')'',
             success = False\<rparr>
      else Inr how)"

definition throws_result :: "string \<Rightarrow> string \<Rightarrow> completion \<Rightarrow> KAssertionResult + completion" where
  "throws_result expected throwerStr how =
     (case how of
        Finished \<Rightarrow>
          Inl \<lparr>msg = ''ASSERT_THROWS - Expected the exception '' @ apos @ expected @ apos
                  @ '' to be thrown by the following code:'' @ endl @ ''  '' @ throwerStr @ endl
                  @ ''but no exception was thrown.'',
               success = False\<rparr>
      | Threw_KAssertionError \<Rightarrow> throws_caught expected throwerStr KAssertionError how
      | Threw_other e \<Rightarrow> throws_caught expected throwerStr e how
      | Killed_by sig \<Rightarrow> Inr how
      | Called_exit code \<Rightarrow> Inr how
      | Never_ends \<Rightarrow> Inr how)"

text \<open>
  A test body is a \<open>std::function<void()>\<close>. The bodies considered are sequences of
  statements of these kinds:
  \<^item> an assertion macro built on \<open>KTEST_KASSERT_BASE\<close>, written at a source location, with
    the text streamed after it;
  \<^item> \<open>KASSERT_THROWS(expected, captures, thrower)\<close>, with the text and the statements of
    the block \<open>thrower\<close>, written at a source location, with the text streamed after it;
  \<^item> \<open>try { block } catch (const T &) { handler }\<close>;
  \<^item> a statement that writes to \<open>std::cout\<close> and flushes;
  \<^item> a \<open>throw\<close> of an object (\<open>KAssertionError\<close> is \<open>final\<close>, so an object is the abort
    signal exactly when its type has that name);
  \<^item> a fault that makes the system deliver a fatal signal to the process;
  \<^item> a call of \<open>exit\<close>;
  \<^item> a loop that never ends.
\<close>

datatype stmt =
    KASSERT KAssertionResult string nat string
  | KASSERT_THROWS string string "stmt list" string nat string
  | Try "stmt list" string "stmt list"
  | Print string
  | Throw exn
  | Fault nat
  | Exit int
  | Hang

text \<open>
  Statements run in order; the first one that does not finish ends the sequence. A handler
  that takes the thrown object starts with the console as the block has left it.
\<close>

fun exec_stmt :: "stmt \<Rightarrow> string \<Rightarrow> string \<times> completion"
  and exec_body :: "stmt list \<Rightarrow> string \<Rightarrow> string \<times> completion" where
  "exec_stmt (KASSERT resx file ln str) cout = KTEST_KASSERT_BASE resx file ln str cout"
| "exec_stmt (KASSERT_THROWS expected throwerStr thrower file ln str) cout =
     (case exec_body thrower cout of
        (cout', how) \<Rightarrow>
          (case throws_result expected throwerStr how of
             Inl res \<Rightarrow> KTEST_KASSERT_BASE res file ln str cout'
           | Inr how' \<Rightarrow> (cout', how')))"
| "exec_stmt (Try block T handler) cout =
     (case exec_body block cout of
        (cout', Threw_KAssertionError) \<Rightarrow>
          (if catches T KAssertionError then exec_body handler cout'
           else (cout', Threw_KAssertionError))
      | (cout', Threw_other e) \<Rightarrow>
          (if catches T e then exec_body handler cout' else (cout', Threw_other e))
      | (cout', how) \<Rightarrow> (cout', how))"
| "exec_stmt (Print s) cout = (cout @ s, Finished)"
| "exec_stmt (Throw e) cout =
     (cout, if type_name e = type_name KAssertionError then Threw_KAssertionError
            else Threw_other e)"
| "exec_stmt (Fault sig) cout = (cout, Killed_by sig)"
| "exec_stmt (Exit code) cout = (cout, Called_exit code)"
| "exec_stmt Hang cout = (cout, Never_ends)"
| "exec_body [] cout = (cout, Finished)"
| "exec_body (s # ss) cout =
     (case exec_stmt s cout of
        (cout', Finished) \<Rightarrow> exec_body ss cout'
      | (cout', c) \<Rightarrow> (cout', c))"


section \<open>The catalog of tests\<close>

text \<open>\<open>class KTestTest\<close>: the name and the function of a test.\<close>

record KTestTest =
  name :: string
  fn :: "stmt list"



section \<open>The platform\<close>

text \<open>
  What \<open>runAllTests\<close> takes from outside the repository: whether \<open>__unix__\<close> is defined, the
  environment (\<open>None\<close> is the null pointer of \<open>std::getenv\<close>), whether \<open>fork\<close> fails in the
  iteration with a given index (\<open>Some e\<close>: it returns \<open>-1\<close> with \<open>errno = e\<close>), whether a
  fatal signal leaves a core dump, and the texts of \<open>std::strerror\<close> and \<open>strsignal\<close>.
\<close>

record platform =
  unix :: bool
  getenv :: "string \<Rightarrow> string option"
  fork_errno :: "nat \<Rightarrow> nat option"
  dumps_core :: "nat \<Rightarrow> bool"
  strerror :: "nat \<Rightarrow> string"
  strsignal :: "32 word \<Rightarrow> string"

text \<open>
  The wait status of a child, an \<open>int\<close>, as Linux encodes it: an exit code in bits 8 to 15,
  a terminating signal in bits 0 to 6, the core-dump flag in bit 7.
\<close>

definition exited_status :: "int \<Rightarrow> 32 word" where
  "exited_status code = push_bit 8 (word_of_int code AND 0xff)"

definition signaled_status :: "platform \<Rightarrow> nat \<Rightarrow> 32 word" where
  "signaled_status p sig = (of_nat sig AND 0x7f) OR (if dumps_core p sig then 0x80 else 0)"

text \<open>The macros of \<open><sys/wait.h>\<close>, as glibc defines them on Linux.\<close>

definition WEXITSTATUS :: "32 word \<Rightarrow> 32 word" where
  "WEXITSTATUS status = drop_bit 8 (status AND 0xff00)"

definition WTERMSIG :: "32 word \<Rightarrow> 32 word" where
  "WTERMSIG status = status AND 0x7f"

definition WSTOPSIG :: "32 word \<Rightarrow> 32 word" where
  "WSTOPSIG status = WEXITSTATUS status"

definition WIFEXITED :: "32 word \<Rightarrow> bool" where
  "WIFEXITED status = (WTERMSIG status = 0)"

definition WIFSIGNALED :: "32 word \<Rightarrow> bool" where
  "WIFSIGNALED status = (sint (ucast ((status AND 0x7f) + 1) :: 8 word) div 2 > 0)"

text \<open>
  The child process of the isolation mode runs the body inside
  \<open>try { test(); } catch (const KAssertionError &) { exit(-1); } exit(0);\<close>.
  A thrown object of another type leaves the \<open>try\<close> uncaught, so \<open>std::terminate\<close> aborts
  the child with \<open>SIGABRT\<close> (6). A child whose body never ends has no status, and there is
  no equation for it.
\<close>

fun child_status :: "platform \<Rightarrow> completion \<Rightarrow> 32 word" where
  "child_status p Finished = exited_status 0"
| "child_status p Threw_KAssertionError = exited_status (- 1)"
| "child_status p (Threw_other e) = signaled_status p 6"
| "child_status p (Killed_by sig) = signaled_status p sig"
| "child_status p (Called_exit code) = exited_status code"


section \<open>The runner\<close>

text \<open>
  The state of the loop of \<open>runAllTests\<close>: both streams and both counters. The counters are
  \<open>size_t\<close>; they count tests of a vector held in memory, so they cannot wrap around and are
  natural numbers here. Two history variables that the source does not have record what
  the loop has done so far: \<open>iterated\<close>, the tests the \<open>for\<close> loop has entered, and
  \<open>executed\<close>, the calls \<open>test()\<close> that were made, in this process or in a child, each
  with the way the body ended.
\<close>

record run_state =
  cout :: string
  cerr :: string
  failedTests :: nat
  passedTests :: nat
  iterated :: "KTestTest list"
  executed :: "(KTestTest \<times> completion) list"

text \<open>
  How a run ends: \<open>runAllTests\<close> returns (it is a \<open>void\<close> function, so nothing comes
  back with the return), the process exits with a code, an exception leaves \<open>runAllTests\<close>,
  a signal kills the process, or the call never returns, because a body run in this
  process never ends or because \<open>waitpid\<close>, called without a timeout, waits for a child that
  never ends.
\<close>

datatype ending =
    Returned
  | Exited int
  | Propagated exn
  | Killed nat
  | Never_returns

definition shouldFork :: "platform \<Rightarrow> bool" where
  "shouldFork p = (getenv p ''KTEST_FORK'' = Some ''1'')"

definition shouldExit :: "platform \<Rightarrow> bool" where
  "shouldExit p = (getenv p ''KTEST_EXIT'' = Some ''1'')"

definition running_line :: "string \<Rightarrow> string" where
  "running_line nm = ''Running test: '' @ esc @ ''[1;36m'' @ nm @ esc @ ''[0m'' @ endl"

definition passed_line :: "string \<Rightarrow> string" where
  "passed_line nm =
     ''Test '' @ esc @ ''[1;36m'' @ nm @ esc @ ''[0m '' @ esc @ ''[1;32mpassed'' @ esc @ ''[0m.''
       @ endl"

definition failed_line :: "string \<Rightarrow> string" where
  "failed_line nm =
     ''Test '' @ esc @ ''[1;36m'' @ nm @ esc @ ''[0m '' @ esc @ ''[1;31mfailed'' @ esc @ ''[0m.''
       @ endl"

definition signal_line :: "string \<Rightarrow> string \<Rightarrow> string" where
  "signal_line nm signame =
     ''Test '' @ esc @ ''[1;36m'' @ nm @ esc @ ''[0m '' @ esc @ ''[1;31mfailed'' @ esc
       @ ''[0m. Signal: '' @ signame @ endl"

definition error_line :: "string \<Rightarrow> string \<Rightarrow> string" where
  "error_line nm errtext = ''Error starting test '' @ nm @ '': '' @ errtext @ endl"

text \<open>The parent process after \<open>waitpid\<close> has stored the status of the child.\<close>

definition report_child :: "platform \<Rightarrow> KTestTest \<Rightarrow> 32 word \<Rightarrow> run_state \<Rightarrow> run_state" where
  "report_child p test status st =
     (if WIFEXITED status then
        (let statusRet = WEXITSTATUS status in
         if statusRet = 0
         then st\<lparr>cout := cout st @ passed_line (name test), passedTests := passedTests st + 1\<rparr>
         else st\<lparr>cout := cout st @ failed_line (name test), failedTests := failedTests st + 1\<rparr>)
      else if WIFSIGNALED status then
        (let signal = WSTOPSIG status in
         st\<lparr>cout := cout st @ signal_line (name test) (strsignal p signal),
            failedTests := failedTests st + 1\<rparr>)
      else st)"

text \<open>
  One iteration of the loop, for the test at index \<open>i\<close>, seen from the process that called
  \<open>runAllTests\<close>. In the isolation mode the child writes to the same console and is gone
  when \<open>waitpid\<close> returns; only its output and its status reach the parent. \<open>Inl\<close> is an
  iteration that ends the run.
\<close>

definition run_test ::
  "platform \<Rightarrow> nat \<Rightarrow> KTestTest \<Rightarrow> run_state \<Rightarrow> (ending \<times> run_state) + run_state" where
  "run_test p i test st =
     (let st1 = st\<lparr>cout := cout st @ running_line (name test),
                    iterated := iterated st @ [test]\<rparr>
      in if unix p \<and> shouldFork p then
           (case fork_errno p i of
              Some e \<Rightarrow>
                Inr (st1\<lparr>cerr := cerr st1 @ error_line (name test) (strerror p e)\<rparr>)
            | None \<Rightarrow>
                (case exec_body (fn test) (cout st1) of
                   (c, how) \<Rightarrow>
                     (let st2 = st1\<lparr>cout := c, executed := executed st1 @ [(test, how)]\<rparr>
                      in if how = Never_ends then Inl (Never_returns, st2)
                         else Inr (report_child p test (child_status p how) st2))))
         else
           (case exec_body (fn test) (cout st1) of
              (c, how) \<Rightarrow>
                (let st2 = st1\<lparr>cout := c, executed := executed st1 @ [(test, how)]\<rparr>
                 in case how of
                      Finished \<Rightarrow>
                        Inr (st2\<lparr>cout := c @ passed_line (name test),
                                 passedTests := passedTests st2 + 1\<rparr>)
                    | Threw_KAssertionError \<Rightarrow>
                        Inr (st2\<lparr>cout := c @ failed_line (name test),
                                 failedTests := failedTests st2 + 1\<rparr>)
                    | Threw_other e \<Rightarrow> Inl (Propagated e, st2)
                    | Killed_by sig \<Rightarrow> Inl (Killed sig, st2)
                    | Called_exit code \<Rightarrow> Inl (Exited code, st2)
                    | Never_ends \<Rightarrow> Inl (Never_returns, st2))))"

text \<open>The \<open>for\<close> loop over the catalog, from index \<open>i\<close> on.\<close>

fun run_tests ::
  "platform \<Rightarrow> nat \<Rightarrow> KTestTest list \<Rightarrow> run_state \<Rightarrow> (ending \<times> run_state) + run_state" where
  "run_tests p i [] st = Inr st"
| "run_tests p i (test # tests) st =
     (case run_test p i test st of
        Inl stop \<Rightarrow> Inl stop
      | Inr st' \<Rightarrow> run_tests p (Suc i) tests st')"

definition initial_state :: run_state where
  "initial_state =
     \<lparr>cout = [], cerr = [], failedTests = 0, passedTests = 0, iterated = [], executed = []\<rparr>"

text \<open>The summary block printed after the loop.\<close>

definition summary :: "run_state \<Rightarrow> string" where
  "summary st =
     esc @ ''[1m## TEST RESULTS ##'' @ esc @ ''[0m'' @ endl
       @ ''  Tests passed: '' @ show_nat (passedTests st) @ endl
       @ ''  Tests failed: '' @ show_nat (failedTests st) @ endl
       @ (if failedTests st \<noteq> 0
          then esc @ ''[1;31m## TESTS FAILED ##'' @ esc @ ''[0m'' @ endl else [])"

text \<open>What a run leaves behind: the text on both streams and how the run ended.\<close>

record outcome =
  console :: string
  errors :: string
  ending :: ending

definition runAllTests :: "platform \<Rightarrow> KTestTest list \<Rightarrow> outcome" where
  "runAllTests p tests =
     (case run_tests p 0 tests initial_state of
        Inl (stop, st) \<Rightarrow> \<lparr>console = cout st, errors = cerr st, ending = stop\<rparr>
      | Inr st \<Rightarrow>
          (if shouldExit p \<and> failedTests st \<noteq> 0
           then \<lparr>console = cout st @ summary st @ ''Exiting...'' @ endl, errors = cerr st,
                 ending = Exited (- 1)\<rparr>
           else \<lparr>console = cout st @ summary st @ endl, errors = cerr st,
                 ending = Returned\<rparr>))"


section \<open>What a run did\<close>



text \<open>The counters \<open>(passedTests, failedTests)\<close> at the moment the run ended.\<close>

definition final_counts :: "platform \<Rightarrow> KTestTest list \<Rightarrow> nat \<times> nat" where
  "final_counts p tests =
     (case run_tests p 0 tests initial_state of
        Inl (stop, st) \<Rightarrow> (passedTests st, failedTests st)
      | Inr st \<Rightarrow> (passedTests st, failedTests st))"



section \<open>Sample platforms and tests\<close>

text \<open>
  A Linux system whose \<open>fork\<close> behaves as \<open>forks\<close> says and that writes no core dumps.
  \<open>glibc_strerror\<close> and \<open>glibc_strsignal\<close> give the texts of glibc for the numbers used in
  the examples below (\<open>EAGAIN\<close>, \<open>ENOMEM\<close>, \<open>ENOSYS\<close>; \<open>SIGABRT\<close>, \<open>SIGFPE\<close>, \<open>SIGKILL\<close>,
  \<open>SIGSEGV\<close>) and the text glibc has for a number that names no error or signal.
\<close>

definition glibc_strerror :: "nat \<Rightarrow> string" where
  "glibc_strerror e =
     (if e = 11 then ''Resource temporarily unavailable''
      else if e = 12 then ''Cannot allocate memory''
      else if e = 38 then ''Function not implemented''
      else ''Unknown error '' @ show_nat e)"

definition glibc_strsignal :: "32 word \<Rightarrow> string" where
  "glibc_strsignal sig =
     (if sig = 6 then ''Aborted''
      else if sig = 8 then ''Floating point exception''
      else if sig = 9 then ''Killed''
      else if sig = 11 then ''Segmentation fault''
      else ''Unknown signal '' @ show_int (sint sig))"

definition linux :: "(string \<Rightarrow> string option) \<Rightarrow> (nat \<Rightarrow> nat option) \<Rightarrow> platform" where
  "linux env forks =
     \<lparr>unix = True, getenv = env, fork_errno = forks, dumps_core = (\<lambda>sig. False),
      strerror = glibc_strerror, strsignal = glibc_strsignal\<rparr>"

text \<open>No flag set; \<open>KTEST_EXIT=1\<close>; \<open>KTEST_FORK=1\<close>; \<open>KTEST_FORK=1\<close> with every \<open>fork\<close> failing.\<close>

definition plain :: platform where
  "plain = linux Map.empty (\<lambda>i. None)"

definition exiting :: platform where
  "exiting = linux [''KTEST_EXIT'' \<mapsto> ''1''] (\<lambda>i. None)"

definition forking :: platform where
  "forking = linux [''KTEST_FORK'' \<mapsto> ''1''] (\<lambda>i. None)"

definition fork_failing :: platform where
  "fork_failing = linux [''KTEST_FORK'' \<mapsto> ''1''] (\<lambda>i. Some 11)"

text \<open>A \<open>std::runtime_error("boom")\<close>, with the name GCC gives to its type.\<close>

definition runtime_error :: exn where
  "runtime_error =
     \<lparr>type_name = ''std::runtime_error'', bases = [''std::exception''],
      typeid_name = ''St13runtime_error'', what = ''boom''\<rparr>"

text \<open>
  \<open>KTEST(T1) { KASSERT_EQ(2+2, 4); }\<close>, \<open>KTEST(T2) { KASSERT_TRUE(false); ... }\<close>, a test
  that throws \<open>std::runtime_error\<close>, a test that reads through an invalid pointer, a test
  that loops forever, and a test whose failing assertion stands inside
  \<open>KASSERT_THROWS(std::exception, [&], { KASSERT_TRUE(false); print_inside(); })\<close>.
\<close>

definition test_eq :: KTestTest where
  "test_eq =
     \<lparr>name = ''T1'',
      fn = [KASSERT (ktest_assert_eq show_int ''2+2'' ''4'' (2 + 2) 4) ''tests.cpp'' 3 []]\<rparr>"

definition test_true_false :: KTestTest where
  "test_true_false =
     \<lparr>name = ''T2'',
      fn = [KASSERT (ktest_assert_true ''false'' False) ''tests.cpp'' 7 [], Print ''after'']\<rparr>"

definition test_throws :: KTestTest where
  "test_throws = \<lparr>name = ''T3'', fn = [Throw runtime_error, Print ''after'']\<rparr>"

definition test_segv :: KTestTest where
  "test_segv = \<lparr>name = ''T4'', fn = [Fault 11]\<rparr>"


definition swallowed :: "stmt list" where
  "swallowed =
     [KASSERT_THROWS ''std::exception'' ''{ KASSERT_TRUE(false); print_inside(); }''
        [KASSERT (ktest_assert_true ''false'' False) ''tests.cpp'' 7 [], Print ''inside'']
        ''tests.cpp'' 7 [],
      Print ''after'']"

definition test_swallows :: KTestTest where
  "test_swallows = \<lparr>name = ''T6'', fn = swallowed\<rparr>"

text \<open>The loop state after \<open>T1\<close> alone and after \<open>T2\<close> alone, run in the calling process.\<close>

definition state_after_T1 :: run_state where
  "state_after_T1 =
     \<lparr>cout = running_line ''T1'' @ passed_line ''T1'', cerr = [],
      failedTests = 0, passedTests = 1, iterated = [test_eq],
      executed = [(test_eq, Finished)]\<rparr>"

definition state_after_T2 :: run_state where
  "state_after_T2 =
     \<lparr>cout = running_line ''T2'' @ ''tests.cpp:7: Assertion Failure'' @ endl
        @ msg (ktest_assert_true ''false'' False) @ endl @ failed_line ''T2'',
      cerr = [], failedTests = 1, passedTests = 0, iterated = [test_true_false],
      executed = [(test_true_false, Threw_KAssertionError)]\<rparr>"


section \<open>Auxiliary facts\<close>

lemma exec_body_append:
  "exec_body pre c0 = (c1, Finished) \<Longrightarrow> exec_body (pre @ rest) c0 = exec_body rest c1"
proof (induction pre arbitrary: c0)
  case Nil
  then show ?case by simp
next
  case (Cons s pre)
  obtain c how where sr: "exec_stmt s c0 = (c, how)" by (cases "exec_stmt s c0")
  show ?case
  proof (cases how)
    case Finished
    with Cons sr show ?thesis by simp
  qed (use Cons.prems sr in auto)
qed

lemma exec_body_append_any:
  "exec_body (xs @ ys) c =
     (case exec_body xs c of (c', Finished) \<Rightarrow> exec_body ys c' | (c', how) \<Rightarrow> (c', how))"
proof (induction xs arbitrary: c)
  case Nil
  then show ?case by simp
next
  case (Cons s xs)
  obtain d how where sr: "exec_stmt s c = (d, how)" by (cases "exec_stmt s c")
  with Cons show ?case by (cases how) simp_all
qed






lemma catches_KAssertionError:
  "catches T KAssertionError = (T = ''ktest::KAssertionError'' \<or> T = ''std::exception'')"
  by (auto simp: catches_def KAssertionError_def)

lemma executed_report_child [simp]: "executed (report_child p t status st) = executed st"
  by (simp add: report_child_def Let_def)

lemma iterated_report_child [simp]: "iterated (report_child p t status st) = iterated st"
  by (simp add: report_child_def Let_def)










lemma run_tests_append:
  "run_tests p i (xs @ ys) st =
     (case run_tests p i xs st of
        Inl stop \<Rightarrow> Inl stop
      | Inr st' \<Rightarrow> run_tests p (i + length xs) ys st')"
  by (induction xs arbitrary: i st) (simp_all split: sum.splits)

lemma sample_flags [simp]:
  "\<not> shouldFork plain" "\<not> shouldFork exiting" "shouldFork forking" "shouldFork fork_failing"
  "unix plain" "unix exiting" "unix forking" "unix fork_failing"
  "\<not> shouldExit plain" "shouldExit exiting" "\<not> shouldExit forking"
  by (simp_all add: plain_def exiting_def forking_def fork_failing_def linux_def
      shouldFork_def shouldExit_def)

lemma runtime_error_no_abort [simp]: "type_name runtime_error \<noteq> type_name KAssertionError"
  by (simp add: runtime_error_def KAssertionError_def)

lemma run_T1:
  "\<not> shouldFork p \<Longrightarrow> run_tests p 0 [test_eq] initial_state = Inr state_after_T1"
  by (simp add: run_test_def test_eq_def ktest_assert_eq_def KTEST_KASSERT_RES_BASE_def
      KTEST_KASSERT_BASE_def initial_state_def state_after_T1_def)

lemma run_T2:
  "\<not> shouldFork p \<Longrightarrow> run_tests p 0 [test_true_false] initial_state = Inr state_after_T2"
  by (simp add: run_test_def test_true_false_def ktest_assert_true_def KTEST_KASSERT_RES_BASE_def
      KTEST_KASSERT_BASE_def KAssertionHelper_assign_def initial_state_def state_after_T2_def
      show_nat.simps)

lemma mask_numerals:
  "(0x7f :: 32 word) = mask 7" "(0xff :: 32 word) = mask 8"
  "(0xff00 :: 32 word) = push_bit 8 (mask 8)"
  by (simp_all add: mask_eq_exp_minus_1 push_bit_eq_mult)

lemma WIFEXITED_exited: "WIFEXITED (exited_status code)"
  unfolding WIFEXITED_def WTERMSIG_def exited_status_def mask_numerals
  by (rule bit_word_eqI) (auto simp: bit_simps)

lemma WEXITSTATUS_exited: "WEXITSTATUS (exited_status code) = word_of_int code AND 0xff"
  unfolding WEXITSTATUS_def exited_status_def mask_numerals
  by (rule bit_word_eqI) (auto simp: bit_simps)

text \<open>
  A child that exits is classified by the low byte of its exit code: passed when it is
  zero, failed otherwise.
\<close>

lemma report_child_exited:
  "report_child p t (exited_status code) st =
     (if (word_of_int code AND 0xff :: 32 word) = 0
      then st\<lparr>cout := cout st @ passed_line (name t), passedTests := passedTests st + 1\<rparr>
      else st\<lparr>cout := cout st @ failed_line (name t), failedTests := failedTests st + 1\<rparr>)"
  by (simp add: report_child_def WIFEXITED_exited WEXITSTATUS_exited)

text \<open>The five evaluators whose message starts with the identifier of their own kind.\<close>

lemma own_identifier:
  "take 14 (msg (ktest_assert_true checkStr check)) = ''ASSERT_TRUE - '' \<and>
   take 15 (msg (ktest_assert_false checkStr check)) = ''ASSERT_FALSE - '' \<and>
   take 12 (msg (ktest_assert_eq pr expectedStr actualStr expected actual)) = ''ASSERT_EQ - '' \<and>
   take 12 (msg (ktest_assert_ne pr expectedStr actualStr expected actual)) = ''ASSERT_NE - '' \<and>
   take 12 (msg (ktest_assert_gt po aStr bStr a b)) = ''ASSERT_GT - ''"
  by (simp add: ktest_assert_true_def ktest_assert_false_def ktest_assert_eq_def
      ktest_assert_ne_def ktest_assert_gt_def KTEST_KASSERT_RES_BASE_def)

text \<open>The whole console of a run, in the isolation mode, of the test that faults.\<close>

lemma segv_report_on_linux:
  "console (runAllTests forking [test_segv]) =
     running_line ''T4'' @ signal_line ''T4'' ''Unknown signal 0''
       @ esc @ ''[1m## TEST RESULTS ##'' @ esc @ ''[0m'' @ endl
       @ ''  Tests passed: 0'' @ endl
       @ ''  Tests failed: 1'' @ endl
       @ esc @ ''[1;31m## TESTS FAILED ##'' @ esc @ ''[0m'' @ endl
       @ endl"
  by (simp add: runAllTests_def run_test_def report_child_def
      signaled_status_def WIFEXITED_def WTERMSIG_def WIFSIGNALED_def WSTOPSIG_def
      WEXITSTATUS_def forking_def linux_def shouldFork_def shouldExit_def glibc_strsignal_def
      show_int_def show_nat.simps test_segv_def initial_state_def summary_def)


section \<open>The claims\<close>

subsection \<open>C1\<close>

text \<open>
  Claim C1, amended. An assertion whose result is a success writes nothing, raises no
  abort signal and lets execution proceed to the next statement. An assertion whose
  result is a failure writes its report and raises exactly one abort signal,
  \<open>KAssertionError\<close>, and no statement after it in the block that holds it executes. When
  that block is the test body itself, the body ends there with the abort signal. When the
  failing assertion stands in a \<open>try\<close> block, the handler catches the signal if its type
  is \<open>KAssertionError\<close> or its base \<open>std::exception\<close>, and then the handler and the
  statements after the \<open>try\<close> execute; otherwise the signal leaves. When it stands in the
  block of \<open>KASSERT_THROWS\<close>, the macro always catches the signal: if the expected type
  is \<open>KAssertionError\<close> or \<open>std::exception\<close> the macro passes and the statements after it
  execute; otherwise the macro fails and raises an abort signal of its own.
\<close>

theorem kassert_aborts_or_proceeds:
  assumes pre: "exec_body pre c0 = (c1, Finished)"
    and bpre: "exec_body bpre c1 = (c2, Finished)"
    and rep: "rep = fst (KAssertionHelper_assign \<lparr>hmsg = msg r, filepath = fl, line = ln\<rparr> str c2)"
  shows "exec_body (pre @ KASSERT r fl ln str # post) c0 =
     (if success r then exec_body post c1
      else (c1 @ fl @ '':'' @ show_nat ln @ '': Assertion Failure'' @ endl @ msg r @ endl
              @ (if str \<noteq> [] then ''    '' @ str @ endl else []),
            Threw_KAssertionError)) \<and>
    (\<not> success r \<longrightarrow>
       exec_body (pre @ Try (bpre @ KASSERT r fl ln str # bpost) T handler # post) c0 =
         (if catches T KAssertionError then exec_body (handler @ post) rep
          else (rep, Threw_KAssertionError)) \<and>
       (catches expected KAssertionError \<longrightarrow>
          exec_body (pre @ KASSERT_THROWS expected ts (bpre @ KASSERT r fl ln str # bpost)
                             fl' ln' str' # post) c0 =
            exec_body post rep) \<and>
       (\<not> catches expected KAssertionError \<longrightarrow>
          exec_body (pre @ KASSERT_THROWS expected ts (bpre @ KASSERT r fl ln str # bpost)
                             fl' ln' str' # post) c0 =
            KAssertionHelper_assign
              \<lparr>hmsg = ''ASSERT_THROWS - Expected the exeption '' @ apos @ expected @ apos
                  @ '' to be thrown by the following code:'' @ endl @ ''  '' @ ts @ endl
                  @ ''but a different exception was thrown: '' @ typeid_name KAssertionError
                  @ ''('' @ dquote @ what KAssertionError @ dquote @ '')'',
               filepath = fl', line = ln'\<rparr> str' rep))"
proof -
  have top: "exec_body (pre @ KASSERT r fl ln str # post) c0 =
     (if success r then exec_body post c1
      else (c1 @ fl @ '':'' @ show_nat ln @ '': Assertion Failure'' @ endl @ msg r @ endl
              @ (if str \<noteq> [] then ''    '' @ str @ endl else []),
            Threw_KAssertionError))"
    using pre by (simp add: exec_body_append KTEST_KASSERT_BASE_def KAssertionHelper_assign_def)
  have blk: "exec_body (bpre @ KASSERT r fl ln str # bpost) c1 = (rep, Threw_KAssertionError)"
    if "\<not> success r"
    using that bpre rep
    by (simp add: exec_body_append KTEST_KASSERT_BASE_def KAssertionHelper_assign_def Let_def)
  have tried: "exec_body (pre @ Try (bpre @ KASSERT r fl ln str # bpost) T handler # post) c0 =
         (if catches T KAssertionError then exec_body (handler @ post) rep
          else (rep, Threw_KAssertionError))"
    if "\<not> success r"
    using pre blk [OF that] by (simp add: exec_body_append exec_body_append_any)
  have caught: "exec_body (pre @ KASSERT_THROWS expected ts (bpre @ KASSERT r fl ln str # bpost)
                             fl' ln' str' # post) c0 = exec_body post rep"
    if "\<not> success r" and "catches expected KAssertionError"
    using pre blk [OF that(1)] that(2)
    by (simp add: exec_body_append throws_result_def throws_caught_def
        KAssertionResult_default_def KTEST_KASSERT_BASE_def)
  have again: "exec_body (pre @ KASSERT_THROWS expected ts (bpre @ KASSERT r fl ln str # bpost)
                             fl' ln' str' # post) c0 =
            KAssertionHelper_assign
              \<lparr>hmsg = ''ASSERT_THROWS - Expected the exeption '' @ apos @ expected @ apos
                  @ '' to be thrown by the following code:'' @ endl @ ''  '' @ ts @ endl
                  @ ''but a different exception was thrown: '' @ typeid_name KAssertionError
                  @ ''('' @ dquote @ what KAssertionError @ dquote @ '')'',
               filepath = fl', line = ln'\<rparr> str' rep"
    if "\<not> success r" and "\<not> catches expected KAssertionError"
    using pre blk [OF that(1)] that(2)
    by (simp add: exec_body_append throws_result_def throws_caught_def
        KTEST_KASSERT_BASE_def KAssertionHelper_assign_def Let_def catches_KAssertionError)
  from top tried caught again show ?thesis by blast
qed

text \<open>
  A failing \<open>KASSERT_TRUE\<close> and a passing one between two statements that print; the
  failing one inside a \<open>try\<close> with a handler for \<open>std::exception\<close> and with one for
  \<open>std::logic_error\<close>; and inside \<open>KASSERT_THROWS\<close> expecting \<open>KAssertionError\<close> and
  expecting \<open>std::runtime_error\<close>.
\<close>

theorem kassert_aborts_or_proceeds_witness:
  "exec_body ([Print ''a''] @ KASSERT (ktest_assert_true ''false'' False) ''tests.cpp'' 7 []
       # [Print ''b'']) [] =
     (''a'' @ ''tests.cpp:7: Assertion Failure'' @ endl
        @ msg (ktest_assert_true ''false'' False) @ endl, Threw_KAssertionError) \<and>
   exec_body ([Print ''a''] @ KASSERT (ktest_assert_true ''true'' True) ''tests.cpp'' 7 []
       # [Print ''b'']) [] = (''ab'', Finished) \<and>
   exec_body ([Print ''a'']
       @ Try ([] @ KASSERT (ktest_assert_true ''false'' False) ''tests.cpp'' 7 [] # [Print ''c''])
           ''std::exception'' [Print ''h'']
       # [Print ''b'']) [] =
     (''a'' @ ''tests.cpp:7: Assertion Failure'' @ endl
        @ msg (ktest_assert_true ''false'' False) @ endl @ ''hb'', Finished) \<and>
   exec_body ([Print ''a'']
       @ Try ([] @ KASSERT (ktest_assert_true ''false'' False) ''tests.cpp'' 7 [] # [Print ''c''])
           ''std::logic_error'' [Print ''h'']
       # [Print ''b'']) [] =
     (''a'' @ ''tests.cpp:7: Assertion Failure'' @ endl
        @ msg (ktest_assert_true ''false'' False) @ endl, Threw_KAssertionError) \<and>
   exec_body ([Print ''a'']
       @ KASSERT_THROWS ''ktest::KAssertionError'' ''{ KASSERT_TRUE(false); print_c(); }''
           ([] @ KASSERT (ktest_assert_true ''false'' False) ''tests.cpp'' 7 [] # [Print ''c''])
           ''tests.cpp'' 7 []
       # [Print ''b'']) [] =
     (''a'' @ ''tests.cpp:7: Assertion Failure'' @ endl
        @ msg (ktest_assert_true ''false'' False) @ endl @ ''b'', Finished) \<and>
   exec_body ([Print ''a'']
       @ KASSERT_THROWS ''std::runtime_error'' ''{ KASSERT_TRUE(false); print_c(); }''
           ([] @ KASSERT (ktest_assert_true ''false'' False) ''tests.cpp'' 7 [] # [Print ''c''])
           ''tests.cpp'' 7 []
       # [Print ''b'']) [] =
     (''a'' @ ''tests.cpp:7: Assertion Failure'' @ endl
        @ msg (ktest_assert_true ''false'' False) @ endl
        @ ''tests.cpp:7: Assertion Failure'' @ endl
        @ ''ASSERT_THROWS - Expected the exeption 'std::runtime_error' to be thrown by ''
        @ ''the following code:'' @ endl @ ''  { KASSERT_TRUE(false); print_c(); }'' @ endl
        @ ''but a different exception was thrown: N5ktest15KAssertionErrorE(''
        @ dquote @ ''std::exception'' @ dquote @ '')'' @ endl,
      Threw_KAssertionError)"
proof -
  have h: "exec_body [Print ''a''] [] = (''a'', Finished)" by simp
  have b: "exec_body [] ''a'' = (''a'', Finished)" by simp
  have f: "\<not> success (ktest_assert_true ''false'' False)"
    and t: "success (ktest_assert_true ''true'' True)"
    by (simp_all add: ktest_assert_true_def KTEST_KASSERT_RES_BASE_def)
  have c: "catches ''std::exception'' KAssertionError"
    "\<not> catches ''std::logic_error'' KAssertionError"
    "catches ''ktest::KAssertionError'' KAssertionError"
    "\<not> catches ''std::runtime_error'' KAssertionError"
    by (simp_all add: catches_KAssertionError)
  note w1 = kassert_aborts_or_proceeds [OF h b refl, where r = "ktest_assert_true ''false'' False"
      and fl = "''tests.cpp''" and ln = 7 and str = "[]" and post = "[Print ''b'']"
      and bpost = "[Print ''c'']" and T = "''std::exception''" and handler = "[Print ''h'']"
      and expected = "''ktest::KAssertionError''" and ts = "''{ KASSERT_TRUE(false); print_c(); }''"
      and fl' = "''tests.cpp''" and ln' = 7 and str' = "[]"]
  note w2 = kassert_aborts_or_proceeds [OF h b refl, where r = "ktest_assert_true ''false'' False"
      and fl = "''tests.cpp''" and ln = 7 and str = "[]" and post = "[Print ''b'']"
      and bpost = "[Print ''c'']" and T = "''std::logic_error''" and handler = "[Print ''h'']"
      and expected = "''std::runtime_error''" and ts = "''{ KASSERT_TRUE(false); print_c(); }''"
      and fl' = "''tests.cpp''" and ln' = 7 and str' = "[]"]
  note w3 = kassert_aborts_or_proceeds [OF h b refl, where r = "ktest_assert_true ''true'' True"
      and fl = "''tests.cpp''" and ln = 7 and str = "[]" and post = "[Print ''b'']"]
  from w1 w2 w3 f t c show ?thesis
    by (simp add: KAssertionHelper_assign_def KTEST_KASSERT_BASE_def ktest_assert_true_def
        KTEST_KASSERT_RES_BASE_def KAssertionError_def throws_result_def throws_caught_def
        KAssertionResult_default_def catches_def apos_def dquote_def show_nat.simps)
qed

text \<open>
  As first stated, C1 lets no statement of the body execute after a failing assertion. In
  \<open>KASSERT_THROWS(std::exception, [&], { KASSERT_TRUE(false); print_inside(); });\<close>
  followed by a statement that writes \<open>after\<close>, the assertion fails, the macro takes the
  abort signal for the expected exception, and \<open>after\<close> is written; the body finishes and
  the runner counts the test as passed.
\<close>

theorem handler_swallows_abort_counterexample:
  "\<not> success (ktest_assert_true ''false'' False) \<and>
   exec_body swallowed [] =
     (''tests.cpp:7: Assertion Failure'' @ endl @ msg (ktest_assert_true ''false'' False) @ endl
        @ ''after'', Finished) \<and>
   final_counts plain [test_swallows] = (1, 0)"
  by (simp add: swallowed_def test_swallows_def final_counts_def run_test_def initial_state_def
      ktest_assert_true_def KTEST_KASSERT_RES_BASE_def KTEST_KASSERT_BASE_def
      KAssertionHelper_assign_def throws_result_def throws_caught_def catches_KAssertionError
      KAssertionResult_default_def show_nat.simps)

subsection \<open>C2\<close>

text \<open>
  Claim C2, amended. In the isolation mode, when \<open>fork\<close> fails for a test, the runner
  writes a diagnostic with the name of the test and the text of the error to \<open>std::cerr\<close>,
  changes neither \<open>passedTests\<close> nor \<open>failedTests\<close>, does not run the body, and
  continues with the next test of the catalog.
\<close>

theorem fork_failure_reported_not_counted:
  assumes "unix p" and "shouldFork p" and "fork_errno p i = Some e"
  shows "run_tests p i (t # ts) st =
     run_tests p (Suc i) ts
       (st\<lparr>cout := cout st @ running_line (name t),
           iterated := iterated st @ [t],
           cerr := cerr st @ error_line (name t) (strerror p e)\<rparr>)"
  using assms by (simp add: run_test_def)

text \<open>\<open>T1\<close> on a system where \<open>fork\<close> fails with \<open>EAGAIN\<close>.\<close>

theorem fork_failure_reported_not_counted_witness:
  "unix fork_failing \<and> shouldFork fork_failing \<and> fork_errno fork_failing 0 = Some 11 \<and>
   run_tests fork_failing 0 [test_eq] initial_state =
     Inr (initial_state\<lparr>cout := running_line ''T1'',
            iterated := [test_eq],
            cerr := error_line ''T1'' ''Resource temporarily unavailable''\<rparr>)"
proof -
  have e: "fork_errno fork_failing 0 = Some 11"
    by (simp add: fork_failing_def linux_def)
  have s: "strerror fork_failing 11 = ''Resource temporarily unavailable''"
    by (simp add: fork_failing_def linux_def glibc_strerror_def)
  from fork_failure_reported_not_counted [of fork_failing 0 11 test_eq "[]" initial_state, OF _ _ e] e s
  show ?thesis by (simp add: initial_state_def test_eq_def)
qed

text \<open>
  As first stated, C2 has the test count as failed. On a system where \<open>fork\<close> fails, the run
  of \<open>T1\<close> alone ends with both counters at 0.
\<close>

theorem fork_failure_counted_failed_counterexample:
  "final_counts fork_failing [test_eq] = (0, 0)"
  by (simp add: final_counts_def run_test_def fork_failing_def linux_def shouldFork_def
      initial_state_def)

subsection \<open>C3\<close>

text \<open>
  Claim C3. A child that a signal terminated is counted as failed, but the number given
  to \<open>strsignal\<close> is \<open>WSTOPSIG(status)\<close>, which is bits 8 to 15 of the status and so \<open>0\<close>
  for such a child, where the terminating signal is \<open>WTERMSIG(status)\<close>. For a child
  killed by \<open>SIGSEGV\<close> (11) the report carries the text of signal 0.
\<close>

theorem signal_report_names_signal_zero:
  "report_child p t (child_status p (Killed_by 11)) st =
     st\<lparr>cout := cout st @ signal_line (name t) (strsignal p 0),
        failedTests := failedTests st + 1\<rparr> \<and>
   WTERMSIG (child_status p (Killed_by 11)) = 11"
  by (simp add: report_child_def signaled_status_def WIFEXITED_def
      WTERMSIG_def WIFSIGNALED_def WSTOPSIG_def WEXITSTATUS_def)

subsection \<open>C4\<close>

text \<open>
  Claim C4. The messages of \<open>ktest_assert_ge\<close>, \<open>ktest_assert_lt\<close> and \<open>ktest_assert_le\<close>
  all begin with \<open>ASSERT_GT - \<close>, the identifier of another kind, for every operand.
\<close>

theorem ge_lt_le_messages_begin_with_gt:
  "take 12 (msg (ktest_assert_ge pr aStr bStr a b)) = ''ASSERT_GT - '' \<and>
   take 12 (msg (ktest_assert_lt pr aStr bStr a b)) = ''ASSERT_GT - '' \<and>
   take 12 (msg (ktest_assert_le pr aStr bStr a b)) = ''ASSERT_GT - ''"
  by (simp add: ktest_assert_ge_def ktest_assert_lt_def ktest_assert_le_def
      KTEST_KASSERT_RES_BASE_def)

subsection \<open>C5\<close>

text \<open>
  Claim C5, amended. \<open>runAllTests\<close> returns no value. Whenever the loop reaches its end
  and the exit policy does not terminate the process, it returns after writing the
  summary block, which holds both counts in decimal, to \<open>std::cout\<close>; the counts reach the
  entry point in no other way.
\<close>

theorem runAllTests_returns_nothing_prints_counts:
  assumes "run_tests p 0 tests initial_state = Inr st"
    and "\<not> (shouldExit p \<and> failedTests st \<noteq> 0)"
  shows "runAllTests p tests =
     \<lparr>console = cout st
        @ esc @ ''[1m## TEST RESULTS ##'' @ esc @ ''[0m'' @ endl
        @ ''  Tests passed: '' @ show_nat (passedTests st) @ endl
        @ ''  Tests failed: '' @ show_nat (failedTests st) @ endl
        @ (if failedTests st \<noteq> 0
           then esc @ ''[1;31m## TESTS FAILED ##'' @ esc @ ''[0m'' @ endl else [])
        @ endl,
      errors = cerr st, ending = Returned\<rparr>"
  using assms by (simp add: runAllTests_def summary_def)

text \<open>\<open>T2\<close> alone, no flag set.\<close>

theorem runAllTests_returns_nothing_prints_counts_witness:
  "run_tests plain 0 [test_true_false] initial_state = Inr state_after_T2 \<and>
   \<not> (shouldExit plain \<and> failedTests state_after_T2 \<noteq> 0) \<and>
   runAllTests plain [test_true_false] =
     \<lparr>console = cout state_after_T2
        @ esc @ ''[1m## TEST RESULTS ##'' @ esc @ ''[0m'' @ endl
        @ ''  Tests passed: 0'' @ endl
        @ ''  Tests failed: 1'' @ endl
        @ esc @ ''[1;31m## TESTS FAILED ##'' @ esc @ ''[0m'' @ endl
        @ endl,
      errors = [], ending = Returned\<rparr>"
proof -
  have h: "run_tests plain 0 [test_true_false] initial_state = Inr state_after_T2"
    by (rule run_T2) simp
  have n: "\<not> (shouldExit plain \<and> failedTests state_after_T2 \<noteq> 0)" by simp
  from runAllTests_returns_nothing_prints_counts [OF h n] h show ?thesis
    by (simp add: state_after_T2_def show_nat.simps)
qed

text \<open>
  As first stated, C5 has a report with both counts come back from the runner. A run with
  one passed test and a run with one failed test hand the same thing back.
\<close>

theorem run_report_returned_counterexample:
  "ending (runAllTests plain [test_eq]) = ending (runAllTests plain [test_true_false]) \<and>
   final_counts plain [test_eq] = (1, 0) \<and>
   final_counts plain [test_true_false] = (0, 1)"
proof -
  have h1: "run_tests plain 0 [test_eq] initial_state = Inr state_after_T1"
    by (rule run_T1) simp
  have h2: "run_tests plain 0 [test_true_false] initial_state = Inr state_after_T2"
    by (rule run_T2) simp
  show ?thesis
    unfolding runAllTests_def final_counts_def h1 h2
    by (simp add: state_after_T1_def state_after_T2_def)
qed

subsection \<open>C6\<close>

text \<open>
  Claim C6. Outside the isolation mode, after the tests \<open>pre\<close> have run, the body of the
  next test \<open>t\<close> is run in the calling process. If it finishes, \<open>t\<close> is counted as passed;
  if it throws \<open>KAssertionError\<close>, \<open>t\<close> is counted as failed; in both cases the loop
  continues. If it throws an exception \<open>e\<close> of another type, the exception leaves
  \<open>runAllTests\<close>: the run ends there, without the tests \<open>post\<close> and without a summary.
\<close>

theorem direct_handler_catches_only_abort:
  assumes "\<not> (unix p \<and> shouldFork p)"
    and "run_tests p 0 pre initial_state = Inr st"
    and "exec_body (fn t) (cout st @ running_line (name t)) = (c, how)"
  shows "(how = Finished \<longrightarrow>
            run_tests p 0 (pre @ [t]) initial_state =
              Inr (st\<lparr>cout := c @ passed_line (name t), iterated := iterated st @ [t],
                      executed := executed st @ [(t, Finished)],
                      passedTests := passedTests st + 1\<rparr>)) \<and>
         (how = Threw_KAssertionError \<longrightarrow>
            run_tests p 0 (pre @ [t]) initial_state =
              Inr (st\<lparr>cout := c @ failed_line (name t), iterated := iterated st @ [t],
                      executed := executed st @ [(t, Threw_KAssertionError)],
                      failedTests := failedTests st + 1\<rparr>)) \<and>
         (how = Threw_other e \<longrightarrow>
            runAllTests p (pre @ t # post) =
              \<lparr>console = c, errors = cerr st, ending = Propagated e\<rparr>)"
  using assms by (auto simp: run_tests_append run_test_def runAllTests_def)

text \<open>After \<open>T1\<close>: \<open>T1\<close> again, \<open>T2\<close>, and the throwing test followed by \<open>T2\<close>.\<close>

theorem direct_handler_catches_only_abort_witness:
  "run_tests plain 0 ([test_eq] @ [test_eq]) initial_state =
     Inr (state_after_T1\<lparr>cout := cout state_after_T1 @ running_line ''T1'' @ passed_line ''T1'',
            iterated := [test_eq, test_eq],
            executed := [(test_eq, Finished), (test_eq, Finished)], passedTests := 2\<rparr>) \<and>
   run_tests plain 0 ([test_eq] @ [test_true_false]) initial_state =
     Inr (state_after_T1\<lparr>cout := cout state_after_T1 @ cout state_after_T2,
            iterated := [test_eq, test_true_false],
            executed := [(test_eq, Finished), (test_true_false, Threw_KAssertionError)],
            failedTests := 1\<rparr>) \<and>
   runAllTests plain ([test_eq] @ test_throws # [test_true_false]) =
     \<lparr>console = cout state_after_T1 @ running_line ''T3'', errors = [],
      ending = Propagated runtime_error\<rparr>"
proof -
  have n: "\<not> (unix plain \<and> shouldFork plain)" by simp
  have h: "run_tests plain 0 [test_eq] initial_state = Inr state_after_T1"
    by (rule run_T1) simp
  have b1: "exec_body (fn test_eq) (cout state_after_T1 @ running_line (name test_eq)) =
      (cout state_after_T1 @ running_line ''T1'', Finished)"
    by (simp add: test_eq_def ktest_assert_eq_def KTEST_KASSERT_RES_BASE_def
        KTEST_KASSERT_BASE_def)
  have b2: "exec_body (fn test_true_false)
        (cout state_after_T1 @ running_line (name test_true_false)) =
      (cout state_after_T1 @ running_line ''T2'' @ ''tests.cpp:7: Assertion Failure'' @ endl
        @ msg (ktest_assert_true ''false'' False) @ endl, Threw_KAssertionError)"
    by (simp add: test_true_false_def ktest_assert_true_def KTEST_KASSERT_RES_BASE_def
        KTEST_KASSERT_BASE_def KAssertionHelper_assign_def show_nat.simps)
  have b3: "exec_body (fn test_throws) (cout state_after_T1 @ running_line (name test_throws)) =
      (cout state_after_T1 @ running_line ''T3'', Threw_other runtime_error)"
    by (simp add: test_throws_def)
  from direct_handler_catches_only_abort [OF n h b1] direct_handler_catches_only_abort [OF n h b2]
    direct_handler_catches_only_abort [OF n h b3, of runtime_error "[test_true_false]"]
  show ?thesis
    by (simp add: state_after_T1_def state_after_T2_def test_eq_def test_true_false_def)
qed

subsection \<open>C7\<close>

text \<open>
  Claim C7. When the loop has reached its end with state \<open>st\<close>: if \<open>KTEST_EXIT\<close> is set
  to \<open>1\<close> and \<open>failedTests\<close> is positive, the process exits with code \<open>-1\<close>, which a parent
  sees as the nonzero status 255; in every other case \<open>runAllTests\<close> returns, also when
  \<open>failedTests\<close> is positive.
\<close>

theorem exit_policy:
  assumes "run_tests p 0 tests initial_state = Inr st"
  shows "ending (runAllTests p tests) =
           (if getenv p ''KTEST_EXIT'' = Some ''1'' \<and> 0 < failedTests st
            then Exited (- 1) else Returned) \<and>
         WEXITSTATUS (exited_status (- 1)) = 255"
  using assms by (simp add: runAllTests_def shouldExit_def WEXITSTATUS_def exited_status_def)

text \<open>\<open>T2\<close> alone fails; with \<open>KTEST_EXIT=1\<close> the process exits, without it the runner returns.\<close>

theorem exit_policy_witness:
  "run_tests exiting 0 [test_true_false] initial_state = Inr state_after_T2 \<and>
   run_tests plain 0 [test_true_false] initial_state = Inr state_after_T2 \<and>
   failedTests state_after_T2 = 1 \<and>
   ending (runAllTests exiting [test_true_false]) = Exited (- 1) \<and>
   ending (runAllTests plain [test_true_false]) = Returned"
proof -
  have h1: "run_tests exiting 0 [test_true_false] initial_state = Inr state_after_T2"
    by (rule run_T2) simp
  have h2: "run_tests plain 0 [test_true_false] initial_state = Inr state_after_T2"
    by (rule run_T2) simp
  have e: "getenv exiting ''KTEST_EXIT'' = Some ''1''" "getenv plain ''KTEST_EXIT'' = None"
    by (simp_all add: exiting_def plain_def linux_def)
  from exit_policy [OF h1] exit_policy [OF h2] h1 h2 e show ?thesis
    by (simp add: state_after_T2_def)
qed

subsection \<open>C8\<close>

text \<open>
  Claim C8. The success flag of each evaluator is its predicate on the operands: the value
  itself, its negation, equality, inequality, and the four order comparisons.
\<close>

theorem success_flag_is_predicate:
  "success (ktest_assert_true checkStr check) = check \<and>
   success (ktest_assert_false checkStr check) = (\<not> check) \<and>
   success (ktest_assert_eq pr expectedStr actualStr expected actual) = (expected = actual) \<and>
   success (ktest_assert_ne pr expectedStr actualStr expected actual) = (expected \<noteq> actual) \<and>
   success (ktest_assert_gt po aStr bStr a b) = (a > b) \<and>
   success (ktest_assert_ge po aStr bStr a b) = (a \<ge> b) \<and>
   success (ktest_assert_lt po aStr bStr a b) = (a < b) \<and>
   success (ktest_assert_le po aStr bStr a b) = (a \<le> b)"
  by (simp add: ktest_assert_true_def ktest_assert_false_def ktest_assert_eq_def
      ktest_assert_ne_def ktest_assert_gt_def ktest_assert_ge_def ktest_assert_lt_def
      ktest_assert_le_def KTEST_KASSERT_RES_BASE_def)

subsection \<open>C9\<close>




subsection \<open>C10\<close>

text \<open>
  Claim C10. On the empty catalog \<open>runAllTests\<close> returns on every platform and for every
  environment: the summary shows 0 passed and 0 failed, no failure banner is written,
  nothing goes to \<open>std::cerr\<close>, and the process is not terminated.
\<close>

theorem empty_catalog_returns:
  "runAllTests p [] =
     \<lparr>console = esc @ ''[1m## TEST RESULTS ##'' @ esc @ ''[0m'' @ endl
        @ ''  Tests passed: 0'' @ endl @ ''  Tests failed: 0'' @ endl @ endl,
      errors = [], ending = Returned\<rparr>"
  by (simp add: runAllTests_def summary_def initial_state_def show_nat.simps)

end
